theory Spec2Isabelle
  imports Main "HOL-Library.Multiset"
begin

section \<open>Data model of samples/snippets/iam.py\<close>

text \<open>
  The program is six functions and a command dispatcher. Each function builds a client of
  the Pub/Sub library, builds a resource path, performs one or two IAM requests through
  the client and prints the answer. The library and the service behind it are not part of
  the repository: they are a parameter of the model. What the program does to them is
  recorded in a trace of events (clients created and closed, requests sent, lines printed).
\<close>

text \<open>The error kinds the Policy Service raises (the taxonomy of the specification).\<close>

datatype error = NotFoundError | PermissionDeniedError | UnavailableError | AbortedError

text \<open>A binding of a policy: \<open>binding.role\<close> and \<open>binding.members\<close>.\<close>

record binding =
  role :: string
  members :: "string list"

text \<open>
  A policy message. The program touches only \<open>policy.bindings\<close>, a repeated field kept in
  order; every other field of the message (version, etag, ...) is the parameter \<open>'m\<close>,
  carried in \<open>rest\<close>.
\<close>

record 'm policy =
  bindings :: "binding list"
  rest :: 'm

datatype client_kind = Publisher | Subscriber

datatype 'm request =
    GetIamPolicy string
  | SetIamPolicy string "'m policy"
  | TestIamPermissions string "string list"

text \<open>
  One constructor for each \<open>print\<close> call of the source, with the values put into the
  format string as arguments (the library's rendering of a message is not modelled).
\<close>

datatype 'm line =
    Policy_for_topic string
  | Policy_for_subscription string
  | Role_Members string "string list"
  | IAM_policy_for_topic_set string "'m policy"
  | IAM_policy_for_subscription_set string "'m policy"
  | Allowed_permissions_for_topic string "string list"
  | Allowed_permissions_for_subscription string "string list"

datatype 'm event =
    Client_created client_kind
  | Client_closed client_kind
  | Request "'m request"
  | Printed "'m line"

text \<open>
  A client of the library over a service state \<open>'s\<close>: the path template
  (\<open>topic_path\<close> of a publisher client, \<open>subscription_path\<close> of a subscriber client) and
  the three IAM methods. A method either raises (\<open>Inl\<close>) or returns (\<open>Inr\<close>), and leaves a
  new service state.
\<close>

record ('s, 'm) client =
  resource_path :: "string \<Rightarrow> string \<Rightarrow> string"
  get_iam_policy :: "string \<Rightarrow> 's \<Rightarrow> (error + 'm policy) \<times> 's"
  set_iam_policy :: "string \<Rightarrow> 'm policy \<Rightarrow> 's \<Rightarrow> (error + 'm policy) \<times> 's"
  test_iam_permissions :: "string \<Rightarrow> string list \<Rightarrow> 's \<Rightarrow> (error + string list) \<times> 's"

text \<open>The imported module \<open>pubsub_v1\<close>: its two client classes.\<close>

record ('s, 'm) pubsub_v1 =
  PublisherClient :: "('s, 'm) client"
  SubscriberClient :: "('s, 'm) client"

text \<open>The world a function runs in: the state of the service and the events so far.\<close>

record ('s, 'm) world =
  svc :: 's
  trace :: "'m event list"

definition emit :: "'m event \<Rightarrow> ('s, 'm) world \<Rightarrow> ('s, 'm) world" where
  "emit e w = w\<lparr>trace := trace w @ [e]\<rparr>"

text \<open>A request is recorded when it is sent, whether the service answers or raises.\<close>

definition call_get_iam_policy ::
  "('s, 'm) client \<Rightarrow> string \<Rightarrow> ('s, 'm) world \<Rightarrow> (error + 'm policy) \<times> ('s, 'm) world" where
  "call_get_iam_policy client resource w =
     (case get_iam_policy client resource (svc w) of
        (r, s') \<Rightarrow> (r, \<lparr>svc = s', trace = trace w @ [Request (GetIamPolicy resource)]\<rparr>))"

definition call_set_iam_policy ::
  "('s, 'm) client \<Rightarrow> string \<Rightarrow> 'm policy \<Rightarrow> ('s, 'm) world
     \<Rightarrow> (error + 'm policy) \<times> ('s, 'm) world" where
  "call_set_iam_policy client resource p w =
     (case set_iam_policy client resource p (svc w) of
        (r, s') \<Rightarrow> (r, \<lparr>svc = s', trace = trace w @ [Request (SetIamPolicy resource p)]\<rparr>))"

definition call_test_iam_permissions ::
  "('s, 'm) client \<Rightarrow> string \<Rightarrow> string list \<Rightarrow> ('s, 'm) world
     \<Rightarrow> (error + string list) \<times> ('s, 'm) world" where
  "call_test_iam_permissions client resource perms w =
     (case test_iam_permissions client resource perms (svc w) of
        (r, s') \<Rightarrow> (r, \<lparr>svc = s', trace = trace w @ [Request (TestIamPermissions resource perms)]\<rparr>))"

text \<open>\<open>policy.bindings.add(role=r, members=ms)\<close>: a new binding at the end of the field.\<close>

definition bindings_add :: "string \<Rightarrow> string list \<Rightarrow> 'm policy \<Rightarrow> 'm policy" where
  "bindings_add r ms p = p\<lparr>bindings := bindings p @ [\<lparr>role = r, members = ms\<rparr>]\<rparr>"

text \<open>The loop \<open>for binding in policy.bindings: print(...)\<close>.\<close>

fun print_bindings :: "binding list \<Rightarrow> ('s, 'm) world \<Rightarrow> ('s, 'm) world" where
  "print_bindings [] w = w"
| "print_bindings (b # bs) w =
     print_bindings bs (emit (Printed (Role_Members (role b) (members b))) w)"

section \<open>The six operations\<close>

definition get_topic_policy ::
  "('s, 'm) pubsub_v1 \<Rightarrow> string \<Rightarrow> string \<Rightarrow> ('s, 'm) world \<Rightarrow> (error + unit) \<times> ('s, 'm) world" where
  "get_topic_policy pubsub project_id topic_id w0 =
     (let client = PublisherClient pubsub;
          w1 = emit (Client_created Publisher) w0;
          topic_path = resource_path client project_id topic_id
      in case call_get_iam_policy client topic_path w1 of
           (Inl e, w2) \<Rightarrow> (Inl e, w2)
         | (Inr policy, w2) \<Rightarrow>
             (let w3 = emit (Printed (Policy_for_topic topic_path)) w2;
                  w4 = print_bindings (bindings policy) w3
              in (Inr (), w4)))"

definition get_subscription_policy ::
  "('s, 'm) pubsub_v1 \<Rightarrow> string \<Rightarrow> string \<Rightarrow> ('s, 'm) world \<Rightarrow> (error + unit) \<times> ('s, 'm) world" where
  "get_subscription_policy pubsub project_id subscription_id w0 =
     (let client = SubscriberClient pubsub;
          w1 = emit (Client_created Subscriber) w0;
          subscription_path = resource_path client project_id subscription_id
      in case call_get_iam_policy client subscription_path w1 of
           (Inl e, w2) \<Rightarrow> (Inl e, w2)
         | (Inr policy, w2) \<Rightarrow>
             (let w3 = emit (Printed (Policy_for_subscription subscription_path)) w2;
                  w4 = print_bindings (bindings policy) w3;
                  w5 = emit (Client_closed Subscriber) w4
              in (Inr (), w5)))"

definition set_topic_policy ::
  "('s, 'm) pubsub_v1 \<Rightarrow> string \<Rightarrow> string \<Rightarrow> ('s, 'm) world \<Rightarrow> (error + unit) \<times> ('s, 'm) world" where
  "set_topic_policy pubsub project_id topic_id w0 =
     (let client = PublisherClient pubsub;
          w1 = emit (Client_created Publisher) w0;
          topic_path = resource_path client project_id topic_id
      in case call_get_iam_policy client topic_path w1 of
           (Inl e, w2) \<Rightarrow> (Inl e, w2)
         | (Inr policy, w2) \<Rightarrow>
             (let policy1 = bindings_add ''roles/pubsub.viewer'' [''domain:google.com''] policy;
                  policy2 = bindings_add ''roles/pubsub.publisher''
                              [''group:cloud-logs@google.com''] policy1
              in case call_set_iam_policy client topic_path policy2 w2 of
                   (Inl e, w3) \<Rightarrow> (Inl e, w3)
                 | (Inr policy3, w3) \<Rightarrow>
                     (Inr (), emit (Printed (IAM_policy_for_topic_set topic_id policy3)) w3)))"

definition set_subscription_policy ::
  "('s, 'm) pubsub_v1 \<Rightarrow> string \<Rightarrow> string \<Rightarrow> ('s, 'm) world \<Rightarrow> (error + unit) \<times> ('s, 'm) world" where
  "set_subscription_policy pubsub project_id subscription_id w0 =
     (let client = SubscriberClient pubsub;
          w1 = emit (Client_created Subscriber) w0;
          subscription_path = resource_path client project_id subscription_id
      in case call_get_iam_policy client subscription_path w1 of
           (Inl e, w2) \<Rightarrow> (Inl e, w2)
         | (Inr policy, w2) \<Rightarrow>
             (let policy1 = bindings_add ''roles/pubsub.viewer'' [''domain:google.com''] policy;
                  policy2 = bindings_add ''roles/editor''
                              [''group:cloud-logs@google.com''] policy1
              in case call_set_iam_policy client subscription_path policy2 w2 of
                   (Inl e, w3) \<Rightarrow> (Inl e, w3)
                 | (Inr policy3, w3) \<Rightarrow>
                     (let w4 = emit (Printed (IAM_policy_for_subscription_set
                                                subscription_id policy3)) w3;
                          w5 = emit (Client_closed Subscriber) w4
                      in (Inr (), w5))))"

definition check_topic_permissions ::
  "('s, 'm) pubsub_v1 \<Rightarrow> string \<Rightarrow> string \<Rightarrow> ('s, 'm) world \<Rightarrow> (error + unit) \<times> ('s, 'm) world" where
  "check_topic_permissions pubsub project_id topic_id w0 =
     (let client = PublisherClient pubsub;
          w1 = emit (Client_created Publisher) w0;
          topic_path = resource_path client project_id topic_id;
          permissions_to_check = [''pubsub.topics.publish'', ''pubsub.topics.update'']
      in case call_test_iam_permissions client topic_path permissions_to_check w1 of
           (Inl e, w2) \<Rightarrow> (Inl e, w2)
         | (Inr allowed_permissions, w2) \<Rightarrow>
             (Inr (), emit (Printed (Allowed_permissions_for_topic
                                       topic_path allowed_permissions)) w2))"

definition check_subscription_permissions ::
  "('s, 'm) pubsub_v1 \<Rightarrow> string \<Rightarrow> string \<Rightarrow> ('s, 'm) world \<Rightarrow> (error + unit) \<times> ('s, 'm) world" where
  "check_subscription_permissions pubsub project_id subscription_id w0 =
     (let client = SubscriberClient pubsub;
          w1 = emit (Client_created Subscriber) w0;
          subscription_path = resource_path client project_id subscription_id;
          permissions_to_check =
            [''pubsub.subscriptions.consume'', ''pubsub.subscriptions.update'']
      in case call_test_iam_permissions client subscription_path permissions_to_check w1 of
           (Inl e, w2) \<Rightarrow> (Inl e, w2)
         | (Inr allowed_permissions, w2) \<Rightarrow>
             (let w3 = emit (Printed (Allowed_permissions_for_subscription
                                        subscription_path allowed_permissions)) w2;
                  w4 = emit (Client_closed Subscriber) w3
              in (Inr (), w4)))"

section \<open>The command dispatcher\<close>

text \<open>
  The namespace \<open>parser.parse_args()\<close> returns. \<open>command\<close> is \<open>None\<close> when no subcommand
  was given; \<open>topic_id\<close> and \<open>subscription_id\<close> are attributes only of the subcommands
  that declare them.
\<close>

record args =
  project_id :: string
  command :: "string option"
  topic_id :: "string option"
  subscription_id :: "string option"

text \<open>What can escape a function: an error of the service, or a missing attribute.\<close>

datatype exn = Service error | AttributeError

definition with_attr ::
  "string option \<Rightarrow> (string \<Rightarrow> ('s, 'm) world \<Rightarrow> (error + unit) \<times> ('s, 'm) world)
     \<Rightarrow> ('s, 'm) world \<Rightarrow> (exn + unit) \<times> ('s, 'm) world" where
  "with_attr a f w =
     (case a of
        None \<Rightarrow> (Inl AttributeError, w)
      | Some x \<Rightarrow> (case f x w of (Inl e, w') \<Rightarrow> (Inl (Service e), w') | (Inr u, w') \<Rightarrow> (Inr u, w')))"

text \<open>The chain of \<open>if\<close>/\<open>elif\<close> at the end of the script; it has no \<open>else\<close>.\<close>

definition dispatch ::
  "('s, 'm) pubsub_v1 \<Rightarrow> args \<Rightarrow> ('s, 'm) world \<Rightarrow> (exn + unit) \<times> ('s, 'm) world" where
  "dispatch pubsub a w =
     (if command a = Some ''get-topic-policy'' then
        with_attr (topic_id a) (get_topic_policy pubsub (project_id a)) w
      else if command a = Some ''get-subscription-policy'' then
        with_attr (subscription_id a) (get_subscription_policy pubsub (project_id a)) w
      else if command a = Some ''set-topic-policy'' then
        with_attr (topic_id a) (set_topic_policy pubsub (project_id a)) w
      else if command a = Some ''set-subscription-policy'' then
        with_attr (subscription_id a) (set_subscription_policy pubsub (project_id a)) w
      else if command a = Some ''check-topic-permissions'' then
        with_attr (topic_id a) (check_topic_permissions pubsub (project_id a)) w
      else if command a = Some ''check-subscription-permissions'' then
        with_attr (subscription_id a) (check_subscription_permissions pubsub (project_id a)) w
      else (Inr (), w))"

text \<open>
  How the process ends: the script runs to its end, an exception reaches the top level,
  where the interpreter prints it and exits with status 1, or the parser rejects the
  command line, prints the usage and exits with status 2.
\<close>

datatype ending = Finished | Uncaught exn | Usage_error

fun exit_code :: "ending \<Rightarrow> nat" where
  "exit_code Finished = 0"
| "exit_code (Uncaught e) = 1"
| "exit_code Usage_error = 2"

text \<open>A word the parser reads as an option: it begins with \<open>-\<close>.\<close>

fun option_like :: "string \<Rightarrow> bool" where
  "option_like [] = False"
| "option_like (c # cs) = (c = CHR ''-'')"

text \<open>
  \<open>parser.parse_args()\<close> for the parser built at lines 185 to 222: a positional
  \<open>project_id\<close>, then an optional subcommand out of six, each with one positional
  (\<open>topic_id\<close> or \<open>subscription_id\<close>). The parser is the standard library's; this is
  what it does on a command line of plain words. With no word at all the project id is
  missing; a word in the place of the subcommand that is none of the six names is an
  invalid choice; a subcommand without its argument, or with words after it, is rejected
  too: in each of these cases the parser prints the usage and exits with status 2. What
  it does on a command line with a word that begins with \<open>-\<close> (it reads such a word as an
  option, \<open>-h\<close> for one printing the help) is the parameter \<open>options\<close>.
\<close>

definition parse_args ::
  "(string list \<Rightarrow> ending + args) \<Rightarrow> string list \<Rightarrow> ending + args" where
  "parse_args options argv =
     (if list_ex option_like argv then options argv
      else case argv of
        [] \<Rightarrow> Inl Usage_error
      | [p] \<Rightarrow> Inr \<lparr>project_id = p, command = None, topic_id = None, subscription_id = None\<rparr>
      | p # c # ws \<Rightarrow>
          if c = ''get-topic-policy'' \<or> c = ''set-topic-policy''
               \<or> c = ''check-topic-permissions'' then
            (case ws of
               [t] \<Rightarrow> Inr \<lparr>project_id = p, command = Some c, topic_id = Some t,
                          subscription_id = None\<rparr>
             | _ \<Rightarrow> Inl Usage_error)
          else if c = ''get-subscription-policy'' \<or> c = ''set-subscription-policy''
               \<or> c = ''check-subscription-permissions'' then
            (case ws of
               [t] \<Rightarrow> Inr \<lparr>project_id = p, command = Some c, topic_id = None,
                          subscription_id = Some t\<rparr>
             | _ \<Rightarrow> Inl Usage_error)
          else Inl Usage_error)"

text \<open>The script from line 226 on, given the namespace: the dispatcher and how it ends.\<close>

definition run_parsed ::
  "('s, 'm) pubsub_v1 \<Rightarrow> args \<Rightarrow> ('s, 'm) world \<Rightarrow> ending \<times> ('s, 'm) world" where
  "run_parsed pubsub a w =
     (case dispatch pubsub a w of
        (Inl e, w') \<Rightarrow> (Uncaught e, w')
      | (Inr u, w') \<Rightarrow> (Finished, w'))"

text \<open>The whole \<open>__main__\<close> block, from the command line \<open>sys.argv[1:]\<close>.\<close>

definition main ::
  "('s, 'm) pubsub_v1 \<Rightarrow> (string list \<Rightarrow> ending + args) \<Rightarrow> string list \<Rightarrow> ('s, 'm) world
     \<Rightarrow> ending \<times> ('s, 'm) world" where
  "main pubsub options argv w =
     (case parse_args options argv of
        Inl e \<Rightarrow> (e, w)
      | Inr a \<Rightarrow> run_parsed pubsub a w)"

text \<open>The requests in a trace, in the order they were sent.\<close>

fun requests_of :: "'m event list \<Rightarrow> 'm request list" where
  "requests_of [] = []"
| "requests_of (Request r # es) = r # requests_of es"
| "requests_of (e # es) = requests_of es"

section \<open>A reference Policy Service\<close>

text \<open>
  A small service to run the program against: one policy for each existing resource path,
  a write replaces the stored policy and is echoed back, a permission is granted when it
  is in the list \<open>granted\<close>. A request on a path that holds no policy raises
  \<open>NotFoundError\<close>.
\<close>

type_synonym store = "(string \<times> unit policy) list"

definition store_get :: "string \<Rightarrow> store \<Rightarrow> (error + unit policy) \<times> store" where
  "store_get resource s =
     (case map_of s resource of None \<Rightarrow> (Inl NotFoundError, s) | Some p \<Rightarrow> (Inr p, s))"

definition store_set :: "string \<Rightarrow> unit policy \<Rightarrow> store \<Rightarrow> (error + unit policy) \<times> store" where
  "store_set resource p s =
     (case map_of s resource of
        None \<Rightarrow> (Inl NotFoundError, s)
      | Some old \<Rightarrow> (Inr p, (resource, p) # s))"

definition store_test ::
  "string list \<Rightarrow> string \<Rightarrow> string list \<Rightarrow> store \<Rightarrow> (error + string list) \<times> store" where
  "store_test granted resource perms s =
     (case map_of s resource of
        None \<Rightarrow> (Inl NotFoundError, s)
      | Some p \<Rightarrow> (Inr (filter (\<lambda>x. x \<in> set granted) perms), s))"

definition store_client :: "string \<Rightarrow> string list \<Rightarrow> (store, unit) client" where
  "store_client collection granted =
     \<lparr>resource_path = (\<lambda>project name. ''projects/'' @ project @ ''/'' @ collection @ ''/'' @ name),
      get_iam_policy = store_get,
      set_iam_policy = store_set,
      test_iam_permissions = store_test granted\<rparr>"

definition store_pubsub :: "string list \<Rightarrow> (store, unit) pubsub_v1" where
  "store_pubsub granted =
     \<lparr>PublisherClient = store_client ''topics'' granted,
      SubscriberClient = store_client ''subscriptions'' granted\<rparr>"

definition empty_policy :: "unit policy" where
  "empty_policy = \<lparr>bindings = [], rest = ()\<rparr>"

text \<open>
  The scenario of the specification: topic-a of proj-1 exists and has the empty policy.
  Beside it, a subscription sub-a whose policy already has a viewer binding.
\<close>

definition viewer_policy :: "unit policy" where
  "viewer_policy =
     \<lparr>bindings = [\<lparr>role = ''roles/pubsub.viewer'', members = [''domain:google.com'']\<rparr>],
      rest = ()\<rparr>"

definition scenario_world :: "(store, unit) world" where
  "scenario_world =
     \<lparr>svc = [(''projects/proj-1/topics/topic-a'', empty_policy),
             (''projects/proj-1/subscriptions/sub-a'', viewer_policy)],
      trace = []\<rparr>"

text \<open>
  The same service when every write meets a concurrent modification: \<open>set_iam_policy\<close>
  raises \<open>AbortedError\<close> and stores nothing.
\<close>

definition aborting_client :: "string \<Rightarrow> (store, unit) client" where
  "aborting_client collection =
     (store_client collection [])\<lparr>set_iam_policy := (\<lambda>resource p s. (Inl AbortedError, s))\<rparr>"

definition aborting_pubsub :: "(store, unit) pubsub_v1" where
  "aborting_pubsub =
     \<lparr>PublisherClient = aborting_client ''topics'',
      SubscriberClient = aborting_client ''subscriptions''\<rparr>"

text \<open>
  A service that does not keep to the contract of \<open>test_iam_permissions\<close>: it answers
  every check with a permission that was not asked about.
\<close>

definition overgranting_client :: "string \<Rightarrow> (store, unit) client" where
  "overgranting_client collection =
     (store_client collection [])
       \<lparr>test_iam_permissions := (\<lambda>resource perms s. (Inr [''pubsub.topics.delete''], s))\<rparr>"

definition overgranting_pubsub :: "(store, unit) pubsub_v1" where
  "overgranting_pubsub =
     \<lparr>PublisherClient = overgranting_client ''topics'',
      SubscriberClient = overgranting_client ''subscriptions''\<rparr>"

text \<open>A stand-in for the parser's reading of option words, for command lines without any.\<close>

definition no_options :: "string list \<Rightarrow> ending + args" where
  "no_options argv = Inl Usage_error"

section \<open>Observations on a trace\<close>

text \<open>
  The policies submitted with \<open>set_iam_policy\<close>, the policies the service sent back (as
  printed by the set operations) and the permission lists printed by the check operations.
\<close>

fun submitted_policies :: "'m event list \<Rightarrow> 'm policy list" where
  "submitted_policies [] = []"
| "submitted_policies (Request (SetIamPolicy r p) # es) = p # submitted_policies es"
| "submitted_policies (e # es) = submitted_policies es"

fun echoed_policies :: "'m event list \<Rightarrow> 'm policy list" where
  "echoed_policies [] = []"
| "echoed_policies (Printed (IAM_policy_for_topic_set r p) # es) = p # echoed_policies es"
| "echoed_policies (Printed (IAM_policy_for_subscription_set r p) # es) = p # echoed_policies es"
| "echoed_policies (e # es) = echoed_policies es"

fun allowed_printed :: "'m event list \<Rightarrow> string list list" where
  "allowed_printed [] = []"
| "allowed_printed (Printed (Allowed_permissions_for_topic r ps) # es) = ps # allowed_printed es"
| "allowed_printed (Printed (Allowed_permissions_for_subscription r ps) # es) =
     ps # allowed_printed es"
| "allowed_printed (e # es) = allowed_printed es"

section \<open>Basic facts\<close>

lemmas run_defs =
  call_get_iam_policy_def call_set_iam_policy_def call_test_iam_permissions_def
  bindings_add_def emit_def Let_def

lemmas store_defs =
  store_pubsub_def store_client_def store_get_def store_set_def store_test_def
  scenario_world_def empty_policy_def viewer_policy_def
  aborting_pubsub_def aborting_client_def overgranting_pubsub_def overgranting_client_def

lemma requests_of_append: "requests_of (xs @ ys) = requests_of xs @ requests_of ys"
  by (induction xs rule: requests_of.induct) simp_all

lemma submitted_policies_append:
  "submitted_policies (xs @ ys) = submitted_policies xs @ submitted_policies ys"
  by (induction xs rule: submitted_policies.induct) simp_all

lemma echoed_policies_append:
  "echoed_policies (xs @ ys) = echoed_policies xs @ echoed_policies ys"
  by (induction xs rule: echoed_policies.induct) simp_all

lemma allowed_printed_append:
  "allowed_printed (xs @ ys) = allowed_printed xs @ allowed_printed ys"
  by (induction xs rule: allowed_printed.induct) simp_all

lemma trace_print_bindings:
  "trace (print_bindings bs w) =
     trace w @ map (\<lambda>b. Printed (Role_Members (role b) (members b))) bs"
  by (induction bs arbitrary: w) (simp_all add: emit_def)

lemma svc_print_bindings: "svc (print_bindings bs w) = svc w"
  by (induction bs arbitrary: w) (simp_all add: emit_def)

lemma print_bindings_eq:
  "print_bindings bs w =
     \<lparr>svc = svc w,
      trace = trace w @ map (\<lambda>b. Printed (Role_Members (role b) (members b))) bs\<rparr>"
  by (induction bs arbitrary: w) (simp_all add: emit_def)

lemma requests_of_role_lines [simp]:
  "requests_of (map (\<lambda>b. Printed (Role_Members (role b) (members b))) bs) = []"
  by (induction bs) simp_all

lemma echoed_policies_role_lines [simp]:
  "echoed_policies (map (\<lambda>b. Printed (Role_Members (role b) (members b))) bs) = []"
  by (induction bs) simp_all

subsection \<open>Runs of the operations\<close>

lemma get_topic_policy_fails:
  assumes "get_iam_policy (PublisherClient ps) (resource_path (PublisherClient ps) pid tid) (svc w)
             = (Inl e, s1)"
  shows "get_topic_policy ps pid tid w =
           (Inl e, \<lparr>svc = s1, trace = trace w @
              [Client_created Publisher,
               Request (GetIamPolicy (resource_path (PublisherClient ps) pid tid))]\<rparr>)"
  using assms by (simp add: get_topic_policy_def run_defs)

lemma get_topic_policy_ok:
  assumes "get_iam_policy (PublisherClient ps) (resource_path (PublisherClient ps) pid tid) (svc w)
             = (Inr p, s1)"
  shows "get_topic_policy ps pid tid w =
           (Inr (), \<lparr>svc = s1, trace = trace w @
              [Client_created Publisher,
               Request (GetIamPolicy (resource_path (PublisherClient ps) pid tid)),
               Printed (Policy_for_topic (resource_path (PublisherClient ps) pid tid))]
              @ map (\<lambda>b. Printed (Role_Members (role b) (members b))) (bindings p)\<rparr>)"
  using assms by (simp add: get_topic_policy_def run_defs print_bindings_eq)

lemma get_subscription_policy_fails:
  assumes "get_iam_policy (SubscriberClient ps) (resource_path (SubscriberClient ps) pid sid)
             (svc w) = (Inl e, s1)"
  shows "get_subscription_policy ps pid sid w =
           (Inl e, \<lparr>svc = s1, trace = trace w @
              [Client_created Subscriber,
               Request (GetIamPolicy (resource_path (SubscriberClient ps) pid sid))]\<rparr>)"
  using assms by (simp add: get_subscription_policy_def run_defs)

lemma get_subscription_policy_ok:
  assumes "get_iam_policy (SubscriberClient ps) (resource_path (SubscriberClient ps) pid sid)
             (svc w) = (Inr p, s1)"
  shows "get_subscription_policy ps pid sid w =
           (Inr (), \<lparr>svc = s1, trace = trace w @
              [Client_created Subscriber,
               Request (GetIamPolicy (resource_path (SubscriberClient ps) pid sid)),
               Printed (Policy_for_subscription (resource_path (SubscriberClient ps) pid sid))]
              @ map (\<lambda>b. Printed (Role_Members (role b) (members b))) (bindings p)
              @ [Client_closed Subscriber]\<rparr>)"
  using assms by (simp add: get_subscription_policy_def run_defs print_bindings_eq)

lemma set_topic_policy_get_fails:
  assumes "get_iam_policy (PublisherClient ps) (resource_path (PublisherClient ps) pid tid) (svc w)
             = (Inl e, s1)"
  shows "set_topic_policy ps pid tid w =
           (Inl e, \<lparr>svc = s1, trace = trace w @
              [Client_created Publisher,
               Request (GetIamPolicy (resource_path (PublisherClient ps) pid tid))]\<rparr>)"
  using assms by (simp add: set_topic_policy_def run_defs)

lemma set_topic_policy_set_fails:
  assumes "get_iam_policy (PublisherClient ps) (resource_path (PublisherClient ps) pid tid) (svc w)
             = (Inr p, s1)"
    and "set_iam_policy (PublisherClient ps) (resource_path (PublisherClient ps) pid tid)
           (p\<lparr>bindings := bindings p @
              [\<lparr>role = ''roles/pubsub.viewer'', members = [''domain:google.com'']\<rparr>,
               \<lparr>role = ''roles/pubsub.publisher'', members = [''group:cloud-logs@google.com'']\<rparr>]\<rparr>)
           s1 = (Inl e, s2)"
  shows "set_topic_policy ps pid tid w =
           (Inl e, \<lparr>svc = s2, trace = trace w @
              [Client_created Publisher,
               Request (GetIamPolicy (resource_path (PublisherClient ps) pid tid)),
               Request (SetIamPolicy (resource_path (PublisherClient ps) pid tid)
                 (p\<lparr>bindings := bindings p @
                    [\<lparr>role = ''roles/pubsub.viewer'', members = [''domain:google.com'']\<rparr>,
                     \<lparr>role = ''roles/pubsub.publisher'',
                      members = [''group:cloud-logs@google.com'']\<rparr>]\<rparr>))]\<rparr>)"
  using assms by (simp add: set_topic_policy_def run_defs)

lemma set_topic_policy_ok:
  assumes "get_iam_policy (PublisherClient ps) (resource_path (PublisherClient ps) pid tid) (svc w)
             = (Inr p, s1)"
    and "set_iam_policy (PublisherClient ps) (resource_path (PublisherClient ps) pid tid)
           (p\<lparr>bindings := bindings p @
              [\<lparr>role = ''roles/pubsub.viewer'', members = [''domain:google.com'']\<rparr>,
               \<lparr>role = ''roles/pubsub.publisher'', members = [''group:cloud-logs@google.com'']\<rparr>]\<rparr>)
           s1 = (Inr q, s2)"
  shows "set_topic_policy ps pid tid w =
           (Inr (), \<lparr>svc = s2, trace = trace w @
              [Client_created Publisher,
               Request (GetIamPolicy (resource_path (PublisherClient ps) pid tid)),
               Request (SetIamPolicy (resource_path (PublisherClient ps) pid tid)
                 (p\<lparr>bindings := bindings p @
                    [\<lparr>role = ''roles/pubsub.viewer'', members = [''domain:google.com'']\<rparr>,
                     \<lparr>role = ''roles/pubsub.publisher'',
                      members = [''group:cloud-logs@google.com'']\<rparr>]\<rparr>)),
               Printed (IAM_policy_for_topic_set tid q)]\<rparr>)"
  using assms by (simp add: set_topic_policy_def run_defs)

lemma set_subscription_policy_get_fails:
  assumes "get_iam_policy (SubscriberClient ps) (resource_path (SubscriberClient ps) pid sid)
             (svc w) = (Inl e, s1)"
  shows "set_subscription_policy ps pid sid w =
           (Inl e, \<lparr>svc = s1, trace = trace w @
              [Client_created Subscriber,
               Request (GetIamPolicy (resource_path (SubscriberClient ps) pid sid))]\<rparr>)"
  using assms by (simp add: set_subscription_policy_def run_defs)

lemma set_subscription_policy_set_fails:
  assumes "get_iam_policy (SubscriberClient ps) (resource_path (SubscriberClient ps) pid sid)
             (svc w) = (Inr p, s1)"
    and "set_iam_policy (SubscriberClient ps) (resource_path (SubscriberClient ps) pid sid)
           (p\<lparr>bindings := bindings p @
              [\<lparr>role = ''roles/pubsub.viewer'', members = [''domain:google.com'']\<rparr>,
               \<lparr>role = ''roles/editor'', members = [''group:cloud-logs@google.com'']\<rparr>]\<rparr>)
           s1 = (Inl e, s2)"
  shows "set_subscription_policy ps pid sid w =
           (Inl e, \<lparr>svc = s2, trace = trace w @
              [Client_created Subscriber,
               Request (GetIamPolicy (resource_path (SubscriberClient ps) pid sid)),
               Request (SetIamPolicy (resource_path (SubscriberClient ps) pid sid)
                 (p\<lparr>bindings := bindings p @
                    [\<lparr>role = ''roles/pubsub.viewer'', members = [''domain:google.com'']\<rparr>,
                     \<lparr>role = ''roles/editor'',
                      members = [''group:cloud-logs@google.com'']\<rparr>]\<rparr>))]\<rparr>)"
  using assms by (simp add: set_subscription_policy_def run_defs)

lemma set_subscription_policy_ok:
  assumes "get_iam_policy (SubscriberClient ps) (resource_path (SubscriberClient ps) pid sid)
             (svc w) = (Inr p, s1)"
    and "set_iam_policy (SubscriberClient ps) (resource_path (SubscriberClient ps) pid sid)
           (p\<lparr>bindings := bindings p @
              [\<lparr>role = ''roles/pubsub.viewer'', members = [''domain:google.com'']\<rparr>,
               \<lparr>role = ''roles/editor'', members = [''group:cloud-logs@google.com'']\<rparr>]\<rparr>)
           s1 = (Inr q, s2)"
  shows "set_subscription_policy ps pid sid w =
           (Inr (), \<lparr>svc = s2, trace = trace w @
              [Client_created Subscriber,
               Request (GetIamPolicy (resource_path (SubscriberClient ps) pid sid)),
               Request (SetIamPolicy (resource_path (SubscriberClient ps) pid sid)
                 (p\<lparr>bindings := bindings p @
                    [\<lparr>role = ''roles/pubsub.viewer'', members = [''domain:google.com'']\<rparr>,
                     \<lparr>role = ''roles/editor'',
                      members = [''group:cloud-logs@google.com'']\<rparr>]\<rparr>)),
               Printed (IAM_policy_for_subscription_set sid q),
               Client_closed Subscriber]\<rparr>)"
  using assms by (simp add: set_subscription_policy_def run_defs)

lemma check_topic_permissions_fails:
  assumes "test_iam_permissions (PublisherClient ps) (resource_path (PublisherClient ps) pid tid)
             [''pubsub.topics.publish'', ''pubsub.topics.update''] (svc w) = (Inl e, s1)"
  shows "check_topic_permissions ps pid tid w =
           (Inl e, \<lparr>svc = s1, trace = trace w @
              [Client_created Publisher,
               Request (TestIamPermissions (resource_path (PublisherClient ps) pid tid)
                          [''pubsub.topics.publish'', ''pubsub.topics.update''])]\<rparr>)"
  using assms by (simp add: check_topic_permissions_def run_defs)

lemma check_topic_permissions_ok:
  assumes "test_iam_permissions (PublisherClient ps) (resource_path (PublisherClient ps) pid tid)
             [''pubsub.topics.publish'', ''pubsub.topics.update''] (svc w) = (Inr g, s1)"
  shows "check_topic_permissions ps pid tid w =
           (Inr (), \<lparr>svc = s1, trace = trace w @
              [Client_created Publisher,
               Request (TestIamPermissions (resource_path (PublisherClient ps) pid tid)
                          [''pubsub.topics.publish'', ''pubsub.topics.update'']),
               Printed (Allowed_permissions_for_topic
                          (resource_path (PublisherClient ps) pid tid) g)]\<rparr>)"
  using assms by (simp add: check_topic_permissions_def run_defs)

lemma check_subscription_permissions_fails:
  assumes "test_iam_permissions (SubscriberClient ps)
             (resource_path (SubscriberClient ps) pid sid)
             [''pubsub.subscriptions.consume'', ''pubsub.subscriptions.update''] (svc w)
           = (Inl e, s1)"
  shows "check_subscription_permissions ps pid sid w =
           (Inl e, \<lparr>svc = s1, trace = trace w @
              [Client_created Subscriber,
               Request (TestIamPermissions (resource_path (SubscriberClient ps) pid sid)
                          [''pubsub.subscriptions.consume'', ''pubsub.subscriptions.update''])]\<rparr>)"
  using assms by (simp add: check_subscription_permissions_def run_defs)

lemma check_subscription_permissions_ok:
  assumes "test_iam_permissions (SubscriberClient ps)
             (resource_path (SubscriberClient ps) pid sid)
             [''pubsub.subscriptions.consume'', ''pubsub.subscriptions.update''] (svc w)
           = (Inr g, s1)"
  shows "check_subscription_permissions ps pid sid w =
           (Inr (), \<lparr>svc = s1, trace = trace w @
              [Client_created Subscriber,
               Request (TestIamPermissions (resource_path (SubscriberClient ps) pid sid)
                          [''pubsub.subscriptions.consume'', ''pubsub.subscriptions.update'']),
               Printed (Allowed_permissions_for_subscription
                          (resource_path (SubscriberClient ps) pid sid) g),
               Client_closed Subscriber]\<rparr>)"
  using assms by (simp add: check_subscription_permissions_def run_defs)

section \<open>The claims\<close>



text \<open>
  Claim C2, as the code has it. The set operation on a topic takes no binding from its
  caller: it adds its two fixed bindings. On the scenario of the claim (topic-a of proj-1
  with the empty policy) the submitted policy is therefore not the single viewer binding.
\<close>

theorem set_topic_policy_single_binding_counterexample:
  "submitted_policies (trace (snd (set_topic_policy (store_pubsub []) ''proj-1'' ''topic-a''
      scenario_world))) \<noteq>
     [\<lparr>bindings = [\<lparr>role = ''roles/pubsub.viewer'', members = [''domain:google.com'']\<rparr>],
       rest = ()\<rparr>]"
  by (simp add: set_topic_policy_def run_defs store_defs)

text \<open>
  Claim C2, amended. If the fetched policy of the topic has no bindings, the policy that
  \<open>set_topic_policy\<close> submits has exactly two bindings, in this order: the viewer binding
  for domain:google.com and the publisher binding for group:cloud-logs@google.com; the
  rest of the message is as fetched.
\<close>

theorem set_topic_policy_on_empty_policy:
  assumes "get_iam_policy (PublisherClient ps) (resource_path (PublisherClient ps) pid tid) (svc w)
             = (Inr p, sa)"
    and "bindings p = []"
  shows "submitted_policies (trace (snd (set_topic_policy ps pid tid w))) =
           submitted_policies (trace w) @
             [p\<lparr>bindings :=
                  [\<lparr>role = ''roles/pubsub.viewer'', members = [''domain:google.com'']\<rparr>,
                   \<lparr>role = ''roles/pubsub.publisher'',
                    members = [''group:cloud-logs@google.com'']\<rparr>]\<rparr>]"
  using assms
  by (simp add: set_topic_policy_def run_defs submitted_policies_append
      split: prod.splits sum.splits)

theorem set_topic_policy_on_empty_policy_witness:
  "submitted_policies (trace (snd (set_topic_policy (store_pubsub []) ''proj-1'' ''topic-a''
      scenario_world))) =
     [\<lparr>bindings =
         [\<lparr>role = ''roles/pubsub.viewer'', members = [''domain:google.com'']\<rparr>,
          \<lparr>role = ''roles/pubsub.publisher'', members = [''group:cloud-logs@google.com'']\<rparr>],
       rest = ()\<rparr>]"
  using set_topic_policy_on_empty_policy
    [where ps = "store_pubsub []" and pid = "''proj-1''" and tid = "''topic-a''"
       and w = scenario_world and p = empty_policy and sa = "svc scenario_world"]
  by (simp add: store_defs)

text \<open>
  Claim C3. A set operation is append-only: when the fetched policy has the bindings B,
  the one policy submitted has, as a multiset, the bindings B plus the bindings the call
  adds, and B is still its beginning, unchanged and in order. A role already bound is
  bound again in a new entry, not merged.
\<close>

theorem set_policy_append_only:
  "(get_iam_policy (PublisherClient ps) (resource_path (PublisherClient ps) pid tid) (svc w)
      = (Inr p, sa) \<longrightarrow>
    (\<exists>q. submitted_policies (trace (snd (set_topic_policy ps pid tid w))) =
            submitted_policies (trace w) @ [q]
        \<and> mset (bindings q) = mset (bindings p) +
              {#\<lparr>role = ''roles/pubsub.viewer'', members = [''domain:google.com'']\<rparr>,
                \<lparr>role = ''roles/pubsub.publisher'',
                 members = [''group:cloud-logs@google.com'']\<rparr>#}
        \<and> take (length (bindings p)) (bindings q) = bindings p))
   \<and>
   (get_iam_policy (SubscriberClient ps) (resource_path (SubscriberClient ps) pid sid) (svc w)
      = (Inr p', sb) \<longrightarrow>
    (\<exists>q. submitted_policies (trace (snd (set_subscription_policy ps pid sid w))) =
            submitted_policies (trace w) @ [q]
        \<and> mset (bindings q) = mset (bindings p') +
              {#\<lparr>role = ''roles/pubsub.viewer'', members = [''domain:google.com'']\<rparr>,
                \<lparr>role = ''roles/editor'', members = [''group:cloud-logs@google.com'']\<rparr>#}
        \<and> take (length (bindings p')) (bindings q) = bindings p'))"
  by (simp add: set_topic_policy_def set_subscription_policy_def run_defs
      submitted_policies_append split: prod.splits sum.splits)

theorem set_policy_append_only_witness:
  "(\<exists>q. submitted_policies (trace (snd (set_subscription_policy (store_pubsub [])
            ''proj-1'' ''sub-a'' scenario_world))) = [q]
      \<and> mset (bindings q) =
          {#\<lparr>role = ''roles/pubsub.viewer'', members = [''domain:google.com'']\<rparr>,
            \<lparr>role = ''roles/pubsub.viewer'', members = [''domain:google.com'']\<rparr>,
            \<lparr>role = ''roles/editor'', members = [''group:cloud-logs@google.com'']\<rparr>#})
   \<and> (\<exists>q. submitted_policies (trace (snd (set_topic_policy (store_pubsub [])
            ''proj-1'' ''topic-a'' scenario_world))) = [q]
      \<and> mset (bindings q) =
          {#\<lparr>role = ''roles/pubsub.viewer'', members = [''domain:google.com'']\<rparr>,
            \<lparr>role = ''roles/pubsub.publisher'', members = [''group:cloud-logs@google.com'']\<rparr>#})"
  using set_policy_append_only
    [where ps = "store_pubsub []" and pid = "''proj-1''" and tid = "''topic-a''"
       and sid = "''sub-a''" and w = scenario_world and p = empty_policy
       and sa = "svc scenario_world" and p' = viewer_policy and sb = "svc scenario_world"]
  by (simp add: set_topic_policy_def set_subscription_policy_def run_defs store_defs)

text \<open>
  Claim C4, as the code has it. No set operation takes a list of bindings to add, so none
  can be called with an empty one: reading the policy of topic-a and then setting it gives
  back a policy whose set of bindings is not the original one.
\<close>

theorem get_then_set_policy_counterexample:
  "map (\<lambda>q. set (bindings q))
     (echoed_policies (trace (snd (set_topic_policy (store_pubsub []) ''proj-1'' ''topic-a''
        (snd (get_topic_policy (store_pubsub []) ''proj-1'' ''topic-a'' scenario_world))))))
   \<noteq> [set (bindings empty_policy)]"
  by (simp add: set_topic_policy_def get_topic_policy_def run_defs store_defs)

text \<open>
  Claim C4, amended. For every project id and resource name, on a service that answers
  the two reads with the same policy and echoes the written policy, a get operation
  followed at once by the set operation of the same resource gives back the original
  policy with the two fixed bindings of that resource kind appended.
\<close>

theorem get_then_set_policy_appends_fixed_bindings:
  "(get_iam_policy (PublisherClient ps) (resource_path (PublisherClient ps) pid tid) (svc w)
      = (Inr p, sa)
    \<and> get_iam_policy (PublisherClient ps) (resource_path (PublisherClient ps) pid tid) sa
      = (Inr p, sb)
    \<and> set_iam_policy (PublisherClient ps) (resource_path (PublisherClient ps) pid tid)
        (p\<lparr>bindings := bindings p @
           [\<lparr>role = ''roles/pubsub.viewer'', members = [''domain:google.com'']\<rparr>,
            \<lparr>role = ''roles/pubsub.publisher'',
             members = [''group:cloud-logs@google.com'']\<rparr>]\<rparr>) sb
      = (Inr (p\<lparr>bindings := bindings p @
           [\<lparr>role = ''roles/pubsub.viewer'', members = [''domain:google.com'']\<rparr>,
            \<lparr>role = ''roles/pubsub.publisher'',
             members = [''group:cloud-logs@google.com'']\<rparr>]\<rparr>), sc)
    \<longrightarrow>
    echoed_policies (trace (snd (set_topic_policy ps pid tid
        (snd (get_topic_policy ps pid tid w))))) =
      echoed_policies (trace w) @
        [p\<lparr>bindings := bindings p @
           [\<lparr>role = ''roles/pubsub.viewer'', members = [''domain:google.com'']\<rparr>,
            \<lparr>role = ''roles/pubsub.publisher'',
             members = [''group:cloud-logs@google.com'']\<rparr>]\<rparr>])
   \<and>
   (get_iam_policy (SubscriberClient ps) (resource_path (SubscriberClient ps) pid sid) (svc w)
      = (Inr p', sa')
    \<and> get_iam_policy (SubscriberClient ps) (resource_path (SubscriberClient ps) pid sid) sa'
      = (Inr p', sb')
    \<and> set_iam_policy (SubscriberClient ps) (resource_path (SubscriberClient ps) pid sid)
        (p'\<lparr>bindings := bindings p' @
           [\<lparr>role = ''roles/pubsub.viewer'', members = [''domain:google.com'']\<rparr>,
            \<lparr>role = ''roles/editor'', members = [''group:cloud-logs@google.com'']\<rparr>]\<rparr>) sb'
      = (Inr (p'\<lparr>bindings := bindings p' @
           [\<lparr>role = ''roles/pubsub.viewer'', members = [''domain:google.com'']\<rparr>,
            \<lparr>role = ''roles/editor'', members = [''group:cloud-logs@google.com'']\<rparr>]\<rparr>), sc')
    \<longrightarrow>
    echoed_policies (trace (snd (set_subscription_policy ps pid sid
        (snd (get_subscription_policy ps pid sid w))))) =
      echoed_policies (trace w) @
        [p'\<lparr>bindings := bindings p' @
           [\<lparr>role = ''roles/pubsub.viewer'', members = [''domain:google.com'']\<rparr>,
            \<lparr>role = ''roles/editor'', members = [''group:cloud-logs@google.com'']\<rparr>]\<rparr>])"
  by (simp add: get_topic_policy_ok get_subscription_policy_ok set_topic_policy_ok
      set_subscription_policy_ok echoed_policies_append)

theorem get_then_set_policy_appends_fixed_bindings_witness:
  "echoed_policies (trace (snd (set_topic_policy (store_pubsub []) ''proj-1'' ''topic-a''
      (snd (get_topic_policy (store_pubsub []) ''proj-1'' ''topic-a'' scenario_world))))) =
     [\<lparr>bindings =
         [\<lparr>role = ''roles/pubsub.viewer'', members = [''domain:google.com'']\<rparr>,
          \<lparr>role = ''roles/pubsub.publisher'', members = [''group:cloud-logs@google.com'']\<rparr>],
       rest = ()\<rparr>]
   \<and> echoed_policies (trace (snd (set_subscription_policy (store_pubsub []) ''proj-1'' ''sub-a''
      (snd (get_subscription_policy (store_pubsub []) ''proj-1'' ''sub-a'' scenario_world))))) =
     [\<lparr>bindings =
         [\<lparr>role = ''roles/pubsub.viewer'', members = [''domain:google.com'']\<rparr>,
          \<lparr>role = ''roles/pubsub.viewer'', members = [''domain:google.com'']\<rparr>,
          \<lparr>role = ''roles/editor'', members = [''group:cloud-logs@google.com'']\<rparr>],
       rest = ()\<rparr>]"
  using get_then_set_policy_appends_fixed_bindings
    [where ps = "store_pubsub []" and pid = "''proj-1''" and tid = "''topic-a''"
       and sid = "''sub-a''" and w = scenario_world and p = empty_policy
       and sa = "svc scenario_world" and sb = "svc scenario_world"
       and sc = "(''projects/proj-1/topics/topic-a'',
                  \<lparr>bindings =
                     [\<lparr>role = ''roles/pubsub.viewer'', members = [''domain:google.com'']\<rparr>,
                      \<lparr>role = ''roles/pubsub.publisher'',
                       members = [''group:cloud-logs@google.com'']\<rparr>],
                   rest = ()\<rparr>) # svc scenario_world"
       and p' = viewer_policy
       and sa' = "svc scenario_world" and sb' = "svc scenario_world"
       and sc' = "(''projects/proj-1/subscriptions/sub-a'',
                  \<lparr>bindings =
                     [\<lparr>role = ''roles/pubsub.viewer'', members = [''domain:google.com'']\<rparr>,
                      \<lparr>role = ''roles/pubsub.viewer'', members = [''domain:google.com'']\<rparr>,
                      \<lparr>role = ''roles/editor'',
                       members = [''group:cloud-logs@google.com'']\<rparr>],
                   rest = ()\<rparr>) # svc scenario_world"]
  by (simp add: store_defs)

text \<open>
  Claim C5, as the code has it. A check operation prints whatever the service answers and
  filters nothing: when the service answers with a permission that was not asked about,
  that permission is printed, so the result is not always within the requested list.
\<close>

theorem check_permissions_subset_counterexample:
  "allowed_printed (trace (snd (check_topic_permissions overgranting_pubsub
      ''proj-1'' ''topic-a'' scenario_world))) = [[''pubsub.topics.delete'']]
   \<and> ''pubsub.topics.delete'' \<notin> set [''pubsub.topics.publish'', ''pubsub.topics.update'']"
  by (simp add: check_topic_permissions_def run_defs store_defs)

text \<open>
  Claim C5, amended. For every project id and resource name, a check operation sends its
  list of permissions to the service as it is, decides nothing itself, and prints exactly
  the list the service answers, whatever that list is. That the answer lies within the
  requested list is the contract of the service; the operation does not enforce it.
\<close>

theorem check_permissions_pass_through:
  "(test_iam_permissions (PublisherClient ps) (resource_path (PublisherClient ps) pid tid)
      [''pubsub.topics.publish'', ''pubsub.topics.update''] (svc w) = (Inr g, sa)
    \<longrightarrow>
    requests_of (trace (snd (check_topic_permissions ps pid tid w))) =
      requests_of (trace w) @
        [TestIamPermissions (resource_path (PublisherClient ps) pid tid)
           [''pubsub.topics.publish'', ''pubsub.topics.update'']]
    \<and> allowed_printed (trace (snd (check_topic_permissions ps pid tid w))) =
          allowed_printed (trace w) @ [g])
   \<and>
   (test_iam_permissions (SubscriberClient ps) (resource_path (SubscriberClient ps) pid sid)
      [''pubsub.subscriptions.consume'', ''pubsub.subscriptions.update''] (svc w) = (Inr g', sb)
    \<longrightarrow>
    requests_of (trace (snd (check_subscription_permissions ps pid sid w))) =
      requests_of (trace w) @
        [TestIamPermissions (resource_path (SubscriberClient ps) pid sid)
           [''pubsub.subscriptions.consume'', ''pubsub.subscriptions.update'']]
    \<and> allowed_printed (trace (snd (check_subscription_permissions ps pid sid w))) =
          allowed_printed (trace w) @ [g'])"
  by (simp add: check_topic_permissions_ok check_subscription_permissions_ok
      requests_of_append allowed_printed_append)

theorem check_permissions_pass_through_witness:
  "allowed_printed (trace (snd (check_topic_permissions (store_pubsub [''pubsub.topics.publish''])
      ''proj-1'' ''topic-a'' scenario_world))) = [[''pubsub.topics.publish'']]
   \<and> allowed_printed (trace (snd (check_subscription_permissions
      (store_pubsub [''pubsub.topics.publish'']) ''proj-1'' ''sub-a'' scenario_world))) = [[]]"
  using check_permissions_pass_through
    [where ps = "store_pubsub [''pubsub.topics.publish'']" and pid = "''proj-1''"
       and tid = "''topic-a''" and sid = "''sub-a''" and w = scenario_world
       and g = "[''pubsub.topics.publish'']" and sa = "svc scenario_world"
       and g' = "[]" and sb = "svc scenario_world"]
  by (simp add: store_defs)

lemma with_attr_raises:
  "f x w = (Inl e, w') \<Longrightarrow> with_attr (Some x) f w = (Inl (Service e), w')"
  by (simp add: with_attr_def)

lemma run_parsed_uncaught:
  "dispatch ps a w = (Inl x, w') \<Longrightarrow> run_parsed ps a w = (Uncaught x, w')"
  by (simp add: run_parsed_def)

lemma main_parsed:
  "parse_args options argv = Inr a \<Longrightarrow> main ps options argv w = run_parsed ps a w"
  by (simp add: main_def)

text \<open>
  Claim C6. Whatever error the service raises, at any request of any of the six
  operations, the operation stops there with that same error: no request is sent again,
  nothing is printed, no empty result stands in for it. Under the dispatcher the error
  reaches the top level, and the process, started from a command line the parser accepts,
  ends with a status other than 0.
\<close>

theorem service_errors_propagate:
  "(get_iam_policy (PublisherClient ps) (resource_path (PublisherClient ps) pid tid) (svc w)
      = (Inl e, sa) \<longrightarrow>
    get_topic_policy ps pid tid w =
      (Inl e, \<lparr>svc = sa, trace = trace w @
         [Client_created Publisher,
          Request (GetIamPolicy (resource_path (PublisherClient ps) pid tid))]\<rparr>)
    \<and> set_topic_policy ps pid tid w =
      (Inl e, \<lparr>svc = sa, trace = trace w @
         [Client_created Publisher,
          Request (GetIamPolicy (resource_path (PublisherClient ps) pid tid))]\<rparr>))
   \<and>
   (get_iam_policy (SubscriberClient ps) (resource_path (SubscriberClient ps) pid sid) (svc w)
      = (Inl e, sa) \<longrightarrow>
    get_subscription_policy ps pid sid w =
      (Inl e, \<lparr>svc = sa, trace = trace w @
         [Client_created Subscriber,
          Request (GetIamPolicy (resource_path (SubscriberClient ps) pid sid))]\<rparr>)
    \<and> set_subscription_policy ps pid sid w =
      (Inl e, \<lparr>svc = sa, trace = trace w @
         [Client_created Subscriber,
          Request (GetIamPolicy (resource_path (SubscriberClient ps) pid sid))]\<rparr>))
   \<and>
   (get_iam_policy (PublisherClient ps) (resource_path (PublisherClient ps) pid tid) (svc w)
      = (Inr p, sa)
    \<and> set_iam_policy (PublisherClient ps) (resource_path (PublisherClient ps) pid tid)
        (p\<lparr>bindings := bindings p @
           [\<lparr>role = ''roles/pubsub.viewer'', members = [''domain:google.com'']\<rparr>,
            \<lparr>role = ''roles/pubsub.publisher'',
             members = [''group:cloud-logs@google.com'']\<rparr>]\<rparr>) sa
      = (Inl e, sb) \<longrightarrow>
    set_topic_policy ps pid tid w =
      (Inl e, \<lparr>svc = sb, trace = trace w @
         [Client_created Publisher,
          Request (GetIamPolicy (resource_path (PublisherClient ps) pid tid)),
          Request (SetIamPolicy (resource_path (PublisherClient ps) pid tid)
            (p\<lparr>bindings := bindings p @
               [\<lparr>role = ''roles/pubsub.viewer'', members = [''domain:google.com'']\<rparr>,
                \<lparr>role = ''roles/pubsub.publisher'',
                 members = [''group:cloud-logs@google.com'']\<rparr>]\<rparr>))]\<rparr>))
   \<and>
   (get_iam_policy (SubscriberClient ps) (resource_path (SubscriberClient ps) pid sid) (svc w)
      = (Inr p', sa)
    \<and> set_iam_policy (SubscriberClient ps) (resource_path (SubscriberClient ps) pid sid)
        (p'\<lparr>bindings := bindings p' @
           [\<lparr>role = ''roles/pubsub.viewer'', members = [''domain:google.com'']\<rparr>,
            \<lparr>role = ''roles/editor'', members = [''group:cloud-logs@google.com'']\<rparr>]\<rparr>) sa
      = (Inl e, sb) \<longrightarrow>
    set_subscription_policy ps pid sid w =
      (Inl e, \<lparr>svc = sb, trace = trace w @
         [Client_created Subscriber,
          Request (GetIamPolicy (resource_path (SubscriberClient ps) pid sid)),
          Request (SetIamPolicy (resource_path (SubscriberClient ps) pid sid)
            (p'\<lparr>bindings := bindings p' @
               [\<lparr>role = ''roles/pubsub.viewer'', members = [''domain:google.com'']\<rparr>,
                \<lparr>role = ''roles/editor'',
                 members = [''group:cloud-logs@google.com'']\<rparr>]\<rparr>))]\<rparr>))
   \<and>
   (test_iam_permissions (PublisherClient ps) (resource_path (PublisherClient ps) pid tid)
      [''pubsub.topics.publish'', ''pubsub.topics.update''] (svc w) = (Inl e, sa) \<longrightarrow>
    check_topic_permissions ps pid tid w =
      (Inl e, \<lparr>svc = sa, trace = trace w @
         [Client_created Publisher,
          Request (TestIamPermissions (resource_path (PublisherClient ps) pid tid)
                     [''pubsub.topics.publish'', ''pubsub.topics.update''])]\<rparr>))
   \<and>
   (test_iam_permissions (SubscriberClient ps) (resource_path (SubscriberClient ps) pid sid)
      [''pubsub.subscriptions.consume'', ''pubsub.subscriptions.update''] (svc w)
      = (Inl e, sa) \<longrightarrow>
    check_subscription_permissions ps pid sid w =
      (Inl e, \<lparr>svc = sa, trace = trace w @
         [Client_created Subscriber,
          Request (TestIamPermissions (resource_path (SubscriberClient ps) pid sid)
                     [''pubsub.subscriptions.consume'', ''pubsub.subscriptions.update''])]\<rparr>))
   \<and>
   ((command a = Some ''get-topic-policy'' \<and> topic_id a = Some tid
         \<and> get_topic_policy ps (project_id a) tid w = (Inl e, w')
       \<or> command a = Some ''get-subscription-policy'' \<and> subscription_id a = Some sid
         \<and> get_subscription_policy ps (project_id a) sid w = (Inl e, w')
       \<or> command a = Some ''set-topic-policy'' \<and> topic_id a = Some tid
         \<and> set_topic_policy ps (project_id a) tid w = (Inl e, w')
       \<or> command a = Some ''set-subscription-policy'' \<and> subscription_id a = Some sid
         \<and> set_subscription_policy ps (project_id a) sid w = (Inl e, w')
       \<or> command a = Some ''check-topic-permissions'' \<and> topic_id a = Some tid
         \<and> check_topic_permissions ps (project_id a) tid w = (Inl e, w')
       \<or> command a = Some ''check-subscription-permissions'' \<and> subscription_id a = Some sid
         \<and> check_subscription_permissions ps (project_id a) sid w = (Inl e, w')) \<longrightarrow>
      run_parsed ps a w = (Uncaught (Service e), w')
      \<and> exit_code (fst (run_parsed ps a w)) \<noteq> 0
      \<and> (parse_args options argv = Inr a \<longrightarrow>
           main ps options argv w = (Uncaught (Service e), w')
           \<and> exit_code (fst (main ps options argv w)) \<noteq> 0))"
proof (intro conjI impI)
  assume c: "command a = Some ''get-topic-policy'' \<and> topic_id a = Some tid
         \<and> get_topic_policy ps (project_id a) tid w = (Inl e, w')
       \<or> command a = Some ''get-subscription-policy'' \<and> subscription_id a = Some sid
         \<and> get_subscription_policy ps (project_id a) sid w = (Inl e, w')
       \<or> command a = Some ''set-topic-policy'' \<and> topic_id a = Some tid
         \<and> set_topic_policy ps (project_id a) tid w = (Inl e, w')
       \<or> command a = Some ''set-subscription-policy'' \<and> subscription_id a = Some sid
         \<and> set_subscription_policy ps (project_id a) sid w = (Inl e, w')
       \<or> command a = Some ''check-topic-permissions'' \<and> topic_id a = Some tid
         \<and> check_topic_permissions ps (project_id a) tid w = (Inl e, w')
       \<or> command a = Some ''check-subscription-permissions'' \<and> subscription_id a = Some sid
         \<and> check_subscription_permissions ps (project_id a) sid w = (Inl e, w')"
  then have "dispatch ps a w = (Inl (Service e), w')"
    by (elim disjE conjE) (simp_all add: dispatch_def with_attr_raises)
  then show m: "run_parsed ps a w = (Uncaught (Service e), w')"
    by (rule run_parsed_uncaught)
  show "exit_code (fst (run_parsed ps a w)) \<noteq> 0"
    by (simp add: m)
  assume "parse_args options argv = Inr a"
  then have n: "main ps options argv w = run_parsed ps a w"
    by (rule main_parsed)
  show "main ps options argv w = (Uncaught (Service e), w')"
    by (simp add: n m)
  show "exit_code (fst (main ps options argv w)) \<noteq> 0"
    by (simp add: n m)
qed (simp_all add: get_topic_policy_fails get_subscription_policy_fails
      set_topic_policy_get_fails set_subscription_policy_get_fails
      set_topic_policy_set_fails set_subscription_policy_set_fails
      check_topic_permissions_fails check_subscription_permissions_fails)

theorem service_errors_propagate_witness:
  "get_topic_policy (store_pubsub []) ''proj-1'' ''topic-b'' scenario_world =
     (Inl NotFoundError,
      \<lparr>svc = svc scenario_world,
       trace = [Client_created Publisher,
                Request (GetIamPolicy ''projects/proj-1/topics/topic-b'')]\<rparr>)
   \<and> check_subscription_permissions (store_pubsub []) ''proj-1'' ''sub-b'' scenario_world =
     (Inl NotFoundError,
      \<lparr>svc = svc scenario_world,
       trace = [Client_created Subscriber,
                Request (TestIamPermissions ''projects/proj-1/subscriptions/sub-b''
                  [''pubsub.subscriptions.consume'', ''pubsub.subscriptions.update''])]\<rparr>)
   \<and> main (store_pubsub []) no_options [''proj-1'', ''get-topic-policy'', ''topic-b'']
       scenario_world =
     (Uncaught (Service NotFoundError),
      \<lparr>svc = svc scenario_world,
       trace = [Client_created Publisher,
                Request (GetIamPolicy ''projects/proj-1/topics/topic-b'')]\<rparr>)
   \<and> fst (set_topic_policy aborting_pubsub ''proj-1'' ''topic-a'' scenario_world) =
       Inl AbortedError
   \<and> fst (set_subscription_policy aborting_pubsub ''proj-1'' ''sub-a'' scenario_world) =
       Inl AbortedError
   \<and> main aborting_pubsub no_options [''proj-1'', ''set-subscription-policy'', ''sub-a'']
       scenario_world =
     (Uncaught (Service AbortedError),
      \<lparr>svc = svc scenario_world,
       trace = [Client_created Subscriber,
                Request (GetIamPolicy ''projects/proj-1/subscriptions/sub-a''),
                Request (SetIamPolicy ''projects/proj-1/subscriptions/sub-a''
                  \<lparr>bindings =
                     [\<lparr>role = ''roles/pubsub.viewer'', members = [''domain:google.com'']\<rparr>,
                      \<lparr>role = ''roles/pubsub.viewer'', members = [''domain:google.com'']\<rparr>,
                      \<lparr>role = ''roles/editor'',
                       members = [''group:cloud-logs@google.com'']\<rparr>],
                   rest = ()\<rparr>)]\<rparr>)"
  using service_errors_propagate
    [where ps = "store_pubsub []" and pid = "''proj-1''" and tid = "''topic-b''"
       and sid = "''sub-b''" and w = scenario_world and e = NotFoundError
       and sa = "svc scenario_world"
       and a = "\<lparr>project_id = ''proj-1'', command = Some ''get-topic-policy'',
                  topic_id = Some ''topic-b'', subscription_id = None\<rparr>"
       and options = no_options
       and argv = "[''proj-1'', ''get-topic-policy'', ''topic-b'']"
       and w' = "\<lparr>svc = svc scenario_world,
                   trace = [Client_created Publisher,
                            Request (GetIamPolicy ''projects/proj-1/topics/topic-b'')]\<rparr>"]
    service_errors_propagate
    [where ps = aborting_pubsub and pid = "''proj-1''" and tid = "''topic-a''"
       and sid = "''sub-a''" and w = scenario_world and e = AbortedError
       and sa = "svc scenario_world" and sb = "svc scenario_world"
       and p = empty_policy and p' = viewer_policy
       and a = "\<lparr>project_id = ''proj-1'', command = Some ''set-subscription-policy'',
                  topic_id = None, subscription_id = Some ''sub-a''\<rparr>"
       and options = no_options
       and argv = "[''proj-1'', ''set-subscription-policy'', ''sub-a'']"
       and w' = "\<lparr>svc = svc scenario_world,
         trace = [Client_created Subscriber,
                Request (GetIamPolicy ''projects/proj-1/subscriptions/sub-a''),
                Request (SetIamPolicy ''projects/proj-1/subscriptions/sub-a''
                  \<lparr>bindings =
                     [\<lparr>role = ''roles/pubsub.viewer'', members = [''domain:google.com'']\<rparr>,
                      \<lparr>role = ''roles/pubsub.viewer'', members = [''domain:google.com'']\<rparr>,
                      \<lparr>role = ''roles/editor'',
                       members = [''group:cloud-logs@google.com'']\<rparr>],
                   rest = ()\<rparr>)]\<rparr>"]
  by (simp add: store_defs parse_args_def)

text \<open>
  Claim C7 says that every operation releases its client on every exit path. The code
  does not: \<open>get_topic_policy\<close> on the existing topic-a returns with its publisher client
  never closed, and \<open>get_subscription_policy\<close> on the missing sub-b leaves on
  \<open>NotFoundError\<close> before it reaches \<open>client.close()\<close>.
\<close>

theorem client_left_open:
  "get_topic_policy (store_pubsub []) ''proj-1'' ''topic-a'' scenario_world =
     (Inr (),
      \<lparr>svc = svc scenario_world,
       trace = [Client_created Publisher,
                Request (GetIamPolicy ''projects/proj-1/topics/topic-a''),
                Printed (Policy_for_topic ''projects/proj-1/topics/topic-a'')]\<rparr>)
   \<and> get_subscription_policy (store_pubsub []) ''proj-1'' ''sub-b'' scenario_world =
     (Inl NotFoundError,
      \<lparr>svc = svc scenario_world,
       trace = [Client_created Subscriber,
                Request (GetIamPolicy ''projects/proj-1/subscriptions/sub-b'')]\<rparr>)"
  by (simp add: get_topic_policy_def get_subscription_policy_def run_defs store_defs)

text \<open>
  Claim C8. The bindings a set operation adds are fixed in the code and depend on the
  resource kind only: after the fetched bindings, the submitted policy of a topic has the
  viewer binding for domain:google.com and the publisher binding for
  group:cloud-logs@google.com, that of a subscription the same viewer binding and the
  editor binding for group:cloud-logs@google.com. The operations take a project id and a
  resource id, and no bindings.
\<close>

theorem set_policy_fixed_bindings:
  "(get_iam_policy (PublisherClient ps) (resource_path (PublisherClient ps) pid tid) (svc w)
      = (Inr p, sa) \<longrightarrow>
    (\<exists>q. submitted_policies (trace (snd (set_topic_policy ps pid tid w))) =
            submitted_policies (trace w) @ [q]
        \<and> drop (length (bindings p)) (bindings q) =
            [\<lparr>role = ''roles/pubsub.viewer'', members = [''domain:google.com'']\<rparr>,
             \<lparr>role = ''roles/pubsub.publisher'',
              members = [''group:cloud-logs@google.com'']\<rparr>]))
   \<and>
   (get_iam_policy (SubscriberClient ps) (resource_path (SubscriberClient ps) pid sid) (svc w)
      = (Inr p', sb) \<longrightarrow>
    (\<exists>q. submitted_policies (trace (snd (set_subscription_policy ps pid sid w))) =
            submitted_policies (trace w) @ [q]
        \<and> drop (length (bindings p')) (bindings q) =
            [\<lparr>role = ''roles/pubsub.viewer'', members = [''domain:google.com'']\<rparr>,
             \<lparr>role = ''roles/editor'', members = [''group:cloud-logs@google.com'']\<rparr>]))"
  by (simp add: set_topic_policy_def set_subscription_policy_def run_defs
      submitted_policies_append split: prod.splits sum.splits)

theorem set_policy_fixed_bindings_witness:
  "(\<exists>q. submitted_policies (trace (snd (set_topic_policy (store_pubsub [])
            ''proj-1'' ''topic-a'' scenario_world))) = [q]
      \<and> drop 0 (bindings q) =
          [\<lparr>role = ''roles/pubsub.viewer'', members = [''domain:google.com'']\<rparr>,
           \<lparr>role = ''roles/pubsub.publisher'', members = [''group:cloud-logs@google.com'']\<rparr>])
   \<and> (\<exists>q. submitted_policies (trace (snd (set_subscription_policy (store_pubsub [])
            ''proj-1'' ''sub-a'' scenario_world))) = [q]
      \<and> drop 1 (bindings q) =
          [\<lparr>role = ''roles/pubsub.viewer'', members = [''domain:google.com'']\<rparr>,
           \<lparr>role = ''roles/editor'', members = [''group:cloud-logs@google.com'']\<rparr>])"
  using set_policy_fixed_bindings
    [where ps = "store_pubsub []" and pid = "''proj-1''" and tid = "''topic-a''"
       and sid = "''sub-a''" and w = scenario_world and p = empty_policy
       and sa = "svc scenario_world" and p' = viewer_policy and sb = "svc scenario_world"]
  by (simp add: set_topic_policy_def set_subscription_policy_def run_defs store_defs)

text \<open>
  Claim C9. The permissions a check operation asks about are fixed in the code: the one
  request of \<open>check_topic_permissions\<close> carries pubsub.topics.publish and
  pubsub.topics.update, that of \<open>check_subscription_permissions\<close> carries
  pubsub.subscriptions.consume and pubsub.subscriptions.update, whatever the arguments and
  whatever the service answers. Neither list is empty.
\<close>

theorem check_permissions_fixed_lists:
  "requests_of (trace (snd (check_topic_permissions ps pid tid w))) =
     requests_of (trace w) @
       [TestIamPermissions (resource_path (PublisherClient ps) pid tid)
          [''pubsub.topics.publish'', ''pubsub.topics.update'']]
   \<and> requests_of (trace (snd (check_subscription_permissions ps pid sid w))) =
     requests_of (trace w) @
       [TestIamPermissions (resource_path (SubscriberClient ps) pid sid)
          [''pubsub.subscriptions.consume'', ''pubsub.subscriptions.update'']]"
  by (simp add: check_topic_permissions_def check_subscription_permissions_def run_defs
      requests_of_append split: prod.splits sum.splits)

text \<open>
  Claim C10, as the code has it. A word in the place of the subcommand that is none of the
  six names never reaches the dispatcher: the parser rejects the command line, and the
  process ends with a usage error and status 2, not 0.
\<close>

theorem unrecognized_subcommand_counterexample:
  "main (store_pubsub []) no_options [''proj-1'', ''bogus''] scenario_world =
     (Usage_error, scenario_world)
   \<and> exit_code (fst (main (store_pubsub []) no_options [''proj-1'', ''bogus'']
         scenario_world)) = 2"
  by (simp add: main_def parse_args_def)

text \<open>
  Claim C10, amended. If the program is invoked with a project id (a plain word, not one
  beginning with \<open>-\<close>) and no subcommand at all, the parser returns a namespace whose command is \<open>None\<close>, the dispatcher takes none of
  its six branches, the world is unchanged (no client is created, no request is sent),
  and the process ends with status 0 rather than with a usage error.
\<close>

theorem no_subcommand_exits_zero:
  assumes "\<not> option_like pid"
  shows "parse_args options [pid] =
           Inr \<lparr>project_id = pid, command = None, topic_id = None, subscription_id = None\<rparr>
         \<and> dispatch ps \<lparr>project_id = pid, command = None, topic_id = None,
               subscription_id = None\<rparr> w = (Inr (), w)
         \<and> main ps options [pid] w = (Finished, w)
         \<and> exit_code (fst (main ps options [pid] w)) = 0"
  using assms by (simp add: main_def run_parsed_def parse_args_def dispatch_def)

theorem no_subcommand_exits_zero_witness:
  "\<not> option_like ''proj-1''
   \<and> main (store_pubsub []) no_options [''proj-1''] scenario_world = (Finished, scenario_world)
   \<and> exit_code (fst (main (store_pubsub []) no_options [''proj-1''] scenario_world)) = 0"
  using no_subcommand_exits_zero
    [where ps = "store_pubsub []" and w = scenario_world and pid = "''proj-1''"
       and options = no_options]
  by simp

end
